theory Spec2Isabelle
  imports
    Complex_Main
    "HOL-Library.Char_ord"
    "HOL-Library.List_Lexorder"
    "HOL-Library.Product_Lexorder"
    "HOL-Library.Multiset"
    "HOL-Library.Sublist"
begin

section \<open>Errors and Python truthiness\<close>

text \<open>
  Every exception that the modelled functions of \<^verbatim>\<open>collection_builder.py\<close> can
  let escape is a value of \<open>error\<close>: a provider client raising on a failed request
  (\<^verbatim>\<open>response.raise_for_status()\<close> in \<^verbatim>\<open>clients/trakt.py\<close>), and
  \<^verbatim>\<open>date(year, 1, 1)\<close> raising \<^verbatim>\<open>ValueError\<close> for a year outside 1..9999.
\<close>

datatype error = HTTPStatusError string | ValueError

text \<open>
  Python tests \<^verbatim>\<open>if x\<close> on optional values: \<^verbatim>\<open>None\<close>, the number zero, the
  empty string and the empty list are all false.
\<close>

definition truthy_int :: "int option \<Rightarrow> bool" where
  "truthy_int v = (case v of None \<Rightarrow> False | Some n \<Rightarrow> n \<noteq> 0)"

definition truthy_real :: "real option \<Rightarrow> bool" where
  "truthy_real v = (case v of None \<Rightarrow> False | Some r \<Rightarrow> r \<noteq> 0)"

definition truthy_str :: "string option \<Rightarrow> bool" where
  "truthy_str v = (case v of None \<Rightarrow> False | Some s \<Rightarrow> s \<noteq> [])"

section \<open>Strings\<close>

text \<open>
  Strings are byte lists. The classification below is the ASCII one; a byte of a
  non-ASCII character (128 and above, as in the UTF-8 encoding of an accented letter) counts as a
  letter that lower-casing leaves alone, which is what the test
  \<^verbatim>\<open>_normalize_title("Les Mis\'erables")\<close> of \<^verbatim>\<open>tests/unit/test_media_matcher.py\<close>
  expects of the accented letter.
\<close>

definition is_space :: "char \<Rightarrow> bool" where
  "is_space c = (c \<in> {CHR '' '', CHR 0x09, CHR 0x0A, CHR 0x0B, CHR 0x0C, CHR 0x0D})"

definition is_alnum :: "char \<Rightarrow> bool" where
  "is_alnum c =
     (let n = (of_char c :: nat)
      in (48 \<le> n \<and> n \<le> 57) \<or> (65 \<le> n \<and> n \<le> 90) \<or> (97 \<le> n \<and> n \<le> 122) \<or> 128 \<le> n)"

definition lower_char :: "char \<Rightarrow> char" where
  "lower_char c =
     (let n = (of_char c :: nat) in if 65 \<le> n \<and> n \<le> 90 then char_of (n + 32) else c)"

definition str_lower :: "string \<Rightarrow> string" where
  "str_lower s = map lower_char s"

section \<open>Identity Normalizer\<close>

text \<open>
  Modelled from the spec: \<^verbatim>\<open>MediaMatcher._normalize_title\<close> lives in
  \<^verbatim>\<open>jfc/services/media_matcher.py\<close>, which is not among the sources; only its tests are.
  The four steps below are the four bullets of section 4.1 of the specification, in their
  order. The article list is the one the specification and the tests name: the, a, an, and the
  French le, la, les, un, une.
\<close>

definition articles :: "string list" where
  "articles = [''the'', ''a'', ''an'', ''le'', ''la'', ''les'', ''un'', ''une'']"

text \<open>
  Strip a single leading article, only when it is the very first word and whitespace follows
  it. The whitespace itself is left for the trimming step.
\<close>

definition strip_article :: "string \<Rightarrow> string" where
  "strip_article s =
     (let w = takeWhile (\<lambda>c. \<not> is_space c) s;
          rest = dropWhile (\<lambda>c. \<not> is_space c) s
      in if w \<in> set articles \<and> rest \<noteq> [] then rest else s)"

text \<open>Every character that is neither alphanumeric nor whitespace becomes one space.\<close>

definition replace_punct :: "string \<Rightarrow> string" where
  "replace_punct s = map (\<lambda>c. if is_alnum c \<or> is_space c then c else CHR '' '') s"

text \<open>Every run of whitespace becomes one space.\<close>

function squeeze :: "string \<Rightarrow> string" where
  "squeeze [] = []"
| "squeeze (c # cs) =
     (if is_space c then CHR '' '' # squeeze (dropWhile is_space cs) else c # squeeze cs)"
  by pat_completeness auto
termination
  by (relation "measure length") (auto simp: length_dropWhile_le less_Suc_eq_le)

definition lstrip :: "string \<Rightarrow> string" where
  "lstrip s = dropWhile is_space s"

fun rstrip :: "string \<Rightarrow> string" where
  "rstrip [] = []"
| "rstrip (c # cs) =
     (case rstrip cs of [] \<Rightarrow> (if is_space c then [] else [c]) | d # ds \<Rightarrow> c # d # ds)"

definition trim :: "string \<Rightarrow> string" where
  "trim s = rstrip (lstrip s)"

definition normalize_title :: "string \<Rightarrow> string" where
  "normalize_title s = trim (squeeze (replace_punct (strip_article (str_lower s))))"

section \<open>Media items and the match predicate\<close>

text \<open>
  \<^verbatim>\<open>MediaItem\<close>, \<^verbatim>\<open>LibraryItem\<close> (\<^verbatim>\<open>jfc/models/media.py\<close>) and
  \<^verbatim>\<open>CollectionItem\<close> (\<^verbatim>\<open>jfc/models/collection.py\<close>) are not among the sources; their
  fields are the ones that \<^verbatim>\<open>collection_builder.py\<close> and the tests read and write. The
  title, the year and the three external identifiers are common to all three classes and form the
  root record; each class extends it.
\<close>

record media_ids =
  title :: string
  year :: "int option"
  tmdb_id :: "int option"
  imdb_id :: "string option"
  tvdb_id :: "int option"

datatype MediaType = MOVIE | SERIES | EPISODE | SEASON

text \<open>
  A genre is an integer id (TMDb) or a string (Trakt); an item without genres has the
  empty list, which Python treats like \<^verbatim>\<open>None\<close> in the only test the code makes of it.
\<close>

datatype genre = GInt int | GStr string

record MediaItem = media_ids +
  media_type :: MediaType
  genres :: "genre list"
  vote_average :: "real option"
  vote_count :: "int option"
  original_language :: "string option"
  original_country :: "string option"

record LibraryItem = media_ids +
  lib_jellyfin_id :: string
  lib_media_type :: MediaType
  library_id :: string
  library_name :: string

text \<open>
  Modelled from the spec: \<^verbatim>\<open>MediaMatcher._is_match\<close> is in the absent
  \<^verbatim>\<open>media_matcher.py\<close>. Section 4.3 of the specification gives the predicate: the same
  primary, secondary or tertiary identifier carried by both sides, or equal normalized titles
  with years that are no more than one apart, an absent year being a wildcard. It is written
  here as the chain of early returns such a method is, over the fields both classes share.
\<close>

definition same_id :: "'i option \<Rightarrow> 'i option \<Rightarrow> bool" where
  "same_id x y = (case x of None \<Rightarrow> False | Some u \<Rightarrow> (case y of None \<Rightarrow> False | Some v \<Rightarrow> u = v))"

definition years_compatible :: "int option \<Rightarrow> int option \<Rightarrow> bool" where
  "years_compatible x y =
     (case x of None \<Rightarrow> True | Some u \<Rightarrow> (case y of None \<Rightarrow> True | Some v \<Rightarrow> \<bar>u - v\<bar> \<le> 1))"

definition is_match :: "'a media_ids_scheme \<Rightarrow> 'b media_ids_scheme \<Rightarrow> bool" where
  "is_match a b =
     (if same_id (tmdb_id a) (tmdb_id b) then True
      else if same_id (imdb_id a) (imdb_id b) then True
      else if same_id (tvdb_id a) (tvdb_id b) then True
      else if normalize_title (title a) \<noteq> normalize_title (title b) then False
      else years_compatible (year a) (year b))"

section \<open>Collection configuration\<close>

text \<open>
  \<^verbatim>\<open>CollectionFilter\<close>, \<^verbatim>\<open>CollectionOrder\<close> and \<^verbatim>\<open>CollectionConfig\<close> are declared in the
  absent \<^verbatim>\<open>jfc/models/collection.py\<close>; the fields and enum members are those that
  \<^verbatim>\<open>collection_builder.py\<close> uses. A Python dictionary with string keys is an association
  list.
\<close>

datatype pyval = PInt int | PStr string

type_synonym pydict = "(string \<times> pyval) list"


record CollectionFilter =
  year_gte :: "int option"
  year_lte :: "int option"
  vote_average_gte :: "real option"
  critic_rating_gte :: "real option"
  tmdb_vote_count_gte :: "int option"
  country_not :: "string list"
  origin_country_not :: "string list"
  original_language_not :: "string list"
  without_genres :: "int list"
  with_genres :: "int list"

datatype CollectionOrder =
  CUSTOM | SORT_NAME | PREMIERE_DATE | COMMUNITY_RATING | CRITIC_RATING | DATE_CREATED | RANDOM

record CollectionConfig =
  name :: string
  summary :: "string option"
  sort_title :: "string option"
  poster :: "string option"
  collection_order :: CollectionOrder
  filters :: CollectionFilter
  limit :: "int option"
  tmdb_trending_weekly :: "int option"
  tmdb_trending_daily :: "int option"
  tmdb_popular :: "int option"
  tmdb_discover :: "pydict option"
  trakt_trending :: "int option"
  trakt_popular :: "int option"
  trakt_chart :: "pydict option"

section \<open>Provider clients and \<^verbatim>\<open>_fetch_items\<close>\<close>

text \<open>
  A provider call is a network request: it returns a list of items or raises. The clients are
  records of such calls, so that a claim can be stated for every behaviour of the providers. The
  discover calls receive the dictionary from which \<^verbatim>\<open>_fetch_tmdb_discover\<close> picks their
  keyword arguments.
\<close>

type_synonym fetched = "error + MediaItem list"

record tmdb_client =
  tmdb_get_trending_movies :: "string \<Rightarrow> int \<Rightarrow> fetched"
  tmdb_get_trending_series :: "string \<Rightarrow> int \<Rightarrow> fetched"
  tmdb_get_popular_movies :: "int \<Rightarrow> fetched"
  tmdb_get_popular_series :: "int \<Rightarrow> fetched"
  tmdb_discover_movies :: "pydict \<Rightarrow> fetched"
  tmdb_discover_series :: "pydict \<Rightarrow> fetched"

record trakt_client =
  trakt_get_trending_movies :: "pyval \<Rightarrow> fetched"
  trakt_get_trending_series :: "pyval \<Rightarrow> fetched"
  trakt_get_popular_movies :: "pyval \<Rightarrow> fetched"
  trakt_get_popular_series :: "pyval \<Rightarrow> fetched"
  trakt_get_watched_movies :: "pyval \<Rightarrow> pyval \<Rightarrow> fetched"
  trakt_get_watched_series :: "pyval \<Rightarrow> pyval \<Rightarrow> fetched"

record CollectionBuilder =
  tmdb :: tmdb_client
  trakt :: "trakt_client option"
  dry_run :: bool







text \<open>
  The loop of lines 341 to 350: an item is appended when its \<^verbatim>\<open>tmdb_id\<close> is true (neither
  \<^verbatim>\<open>None\<close> nor 0) and has not been seen.
\<close>

fun dedup_loop :: "int set \<Rightarrow> MediaItem list \<Rightarrow> MediaItem list" where
  "dedup_loop seen_ids [] = []"
| "dedup_loop seen_ids (item # rest) =
     (case tmdb_id item of
        None \<Rightarrow> dedup_loop seen_ids rest
      | Some i \<Rightarrow>
          if i \<noteq> 0 \<and> i \<notin> seen_ids then item # dedup_loop (insert i seen_ids) rest
          else dedup_loop seen_ids rest)"

definition deduplicate :: "MediaItem list \<Rightarrow> MediaItem list" where
  "deduplicate items = dedup_loop {} items"


section \<open>\<^verbatim>\<open>_apply_filters\<close>\<close>

definition lt_opt :: "'a::ord option \<Rightarrow> 'a option \<Rightarrow> bool" where
  "lt_opt x y = (case x of None \<Rightarrow> False | Some u \<Rightarrow> (case y of None \<Rightarrow> False | Some v \<Rightarrow> u < v))"

definition in_opt :: "string option \<Rightarrow> string list \<Rightarrow> bool" where
  "in_opt x ys = (case x of None \<Rightarrow> False | Some u \<Rightarrow> u \<in> set ys)"

text \<open>
  \<^verbatim>\<open>g if isinstance(g, int) else int(g) if str(g).isdigit() else 0\<close>, for genres that are
  integers or strings of ASCII characters, which is what the providers return. A string with a
  digit outside ASCII, which \<^verbatim>\<open>isdigit\<close> accepts and on which \<^verbatim>\<open>int\<close> can raise, is outside
  this function.
\<close>

definition is_digit :: "char \<Rightarrow> bool" where
  "is_digit c = (48 \<le> (of_char c :: nat) \<and> (of_char c :: nat) \<le> 57)"

definition int_of_digits :: "string \<Rightarrow> int" where
  "int_of_digits s = foldl (\<lambda>n c. 10 * n + (int (of_char c) - 48)) 0 s"

fun genre_id :: "genre \<Rightarrow> int" where
  "genre_id (GInt g) = g"
| "genre_id (GStr g) = (if g \<noteq> [] \<and> list_all is_digit g then int_of_digits g else 0)"

text \<open>
  The body of the loop of \<^verbatim>\<open>_apply_filters\<close>: every \<^verbatim>\<open>continue\<close> is a \<open>False\<close>, reaching
  \<^verbatim>\<open>filtered.append(item)\<close> is \<open>True\<close>.
\<close>

definition item_passes :: "CollectionFilter \<Rightarrow> MediaItem \<Rightarrow> bool" where
  "item_passes f item =
     (if truthy_int (year_gte f) \<and> truthy_int (year item) \<and> lt_opt (year item) (year_gte f)
        then False
      else if truthy_int (year_lte f) \<and> truthy_int (year item) \<and> lt_opt (year_lte f) (year item)
        then False
      else if truthy_real (vote_average_gte f) \<and> truthy_real (vote_average item)
              \<and> lt_opt (vote_average item) (vote_average_gte f)
        then False
      else if truthy_real (critic_rating_gte f) \<and> truthy_real (vote_average item)
              \<and> lt_opt (vote_average item) (critic_rating_gte f)
        then False
      else if truthy_int (tmdb_vote_count_gte f) \<and> truthy_int (vote_count item)
              \<and> lt_opt (vote_count item) (tmdb_vote_count_gte f)
        then False
      else if country_not f \<noteq> [] \<and> truthy_str (original_country item)
              \<and> in_opt (original_country item) (country_not f)
        then False
      else if origin_country_not f \<noteq> [] \<and> truthy_str (original_country item)
              \<and> in_opt (original_country item) (origin_country_not f)
        then False
      else if original_language_not f \<noteq> [] \<and> truthy_str (original_language item)
              \<and> in_opt (original_language item) (original_language_not f)
        then False
      else if without_genres f \<noteq> [] \<and> genres item \<noteq> []
              \<and> list_ex (\<lambda>g. g \<in> set (map genre_id (genres item))) (without_genres f)
        then False
      else if with_genres f \<noteq> [] \<and> genres item \<noteq> []
              \<and> \<not> list_ex (\<lambda>g. g \<in> set (map genre_id (genres item))) (with_genres f)
        then False
      else True)"

text \<open>\<^verbatim>\<open>xs[:n]\<close>: a negative bound counts from the end.\<close>

definition slice_to :: "int \<Rightarrow> 'a list \<Rightarrow> 'a list" where
  "slice_to n xs = (if 0 \<le> n then take (nat n) xs else take (length xs - nat (- n)) xs)"

definition apply_filters :: "MediaItem list \<Rightarrow> CollectionConfig \<Rightarrow> MediaItem list" where
  "apply_filters items cfg =
     (let filtered = filter (item_passes (filters cfg)) items
      in case limit cfg of
           None \<Rightarrow> filtered
         | Some n \<Rightarrow> if n \<noteq> 0 then slice_to n filtered else filtered)"

section \<open>Collections and \<^verbatim>\<open>_sort_items_for_collection\<close>\<close>

text \<open>
  A \<^verbatim>\<open>datetime.date\<close> is its year, month and day; the lexicographic order of the triple is
  the order of dates. \<^verbatim>\<open>date.min\<close> is the first of January of year 1, and
  \<^verbatim>\<open>date(y, 1, 1)\<close> raises \<^verbatim>\<open>ValueError\<close> unless \<open>1 \<le> y \<le> 9999\<close>. Ratings are
  floating-point numbers in the source and reals here (no NaN).
\<close>

type_synonym date = "int \<times> int \<times> int"

definition date_min :: date where
  "date_min = (1, 1, 1)"

definition date_of_year :: "int \<Rightarrow> error + date" where
  "date_of_year y = (if 1 \<le> y \<and> y \<le> 9999 then Inr (y, 1, 1) else Inl ValueError)"

record CollectionItem = media_ids +
  jellyfin_id :: "string option"
  item_media_type :: string
  matched :: bool
  in_library :: bool
  sort_name :: "string option"
  premiere_date :: "date option"
  community_rating :: "real option"
  critic_rating :: "real option"
  date_created :: "date option"

record Collection =
  config :: CollectionConfig
  collection_library_name :: string
  items :: "CollectionItem list"
  collection_jellyfin_id :: "string option"

text \<open>
  \<^verbatim>\<open>(x.sort_name or x.title).lower()\<close>. Python's \<^verbatim>\<open>str.lower\<close> lower-cases every cased
  letter of Unicode; it is the parameter \<open>lower\<close>, so that what is proved of the name order holds
  for the lower-casing of the runtime, whatever it does to a letter. On strings of ASCII
  characters it is \<open>str_lower\<close>.
\<close>

definition sort_key_name :: "(string \<Rightarrow> string) \<Rightarrow> CollectionItem \<Rightarrow> string" where
  "sort_key_name lower x = lower (if truthy_str (sort_name x) then the (sort_name x) else title x)"

definition premiere_or_fallback :: "CollectionItem \<Rightarrow> error + date" where
  "premiere_or_fallback x =
     (case premiere_date x of
        Some d \<Rightarrow> Inr d
      | None \<Rightarrow> (case year x of
                   None \<Rightarrow> Inr date_min
                 | Some y \<Rightarrow> if y \<noteq> 0 then date_of_year y else Inr date_min))"

definition sort_key_premiere :: "CollectionItem \<Rightarrow> date \<times> string" where
  "sort_key_premiere x = (projr (premiere_or_fallback x), title x)"

definition sort_key_rating :: "CollectionItem \<Rightarrow> real \<times> string" where
  "sort_key_rating x = (- (case community_rating x of None \<Rightarrow> 0 | Some r \<Rightarrow> r), title x)"

definition sort_key_critic :: "CollectionItem \<Rightarrow> real \<times> string" where
  "sort_key_critic x = (- (case critic_rating x of None \<Rightarrow> 0 | Some r \<Rightarrow> r), title x)"

definition sort_key_created :: "CollectionItem \<Rightarrow> date \<times> string" where
  "sort_key_created x = (case date_created x of None \<Rightarrow> date_min | Some d \<Rightarrow> d, title x)"

text \<open>
  \<^verbatim>\<open>sorted(items, key=key_func, reverse=reverse)\<close>. Python's sort is stable, and with
  \<^verbatim>\<open>reverse=True\<close> it still leaves items with equal keys in their original order: it
  reverses the list, sorts it, and reverses the result.
\<close>

definition sorted_py :: "('a \<Rightarrow> 'k::linorder) \<Rightarrow> bool \<Rightarrow> 'a list \<Rightarrow> 'a list" where
  "sorted_py key_func reverse xs =
     (if reverse then rev (sort_key key_func (rev xs)) else sort_key key_func xs)"

text \<open>
  \<^verbatim>\<open>random.shuffle\<close> is the parameter \<open>shuffle\<close>: the permutation that the generator
  picks. The key of the premiere order is computed for every item before sorting, so the first
  item whose fallback date cannot be built raises; \<open>sort_key_premiere\<close> is applied only when
  the date of every item can be built.
\<close>

definition sort_items_for_collection ::
  "(string \<Rightarrow> string) \<Rightarrow> (CollectionItem list \<Rightarrow> CollectionItem list) \<Rightarrow> CollectionItem list
     \<Rightarrow> CollectionOrder \<Rightarrow> error + CollectionItem list" where
  "sort_items_for_collection lower shuffle xs order =
     (case order of
        CUSTOM \<Rightarrow> Inr xs
      | RANDOM \<Rightarrow> Inr (shuffle xs)
      | SORT_NAME \<Rightarrow> Inr (sorted_py (sort_key_name lower) False xs)
      | PREMIERE_DATE \<Rightarrow>
          (case find (\<lambda>x. isl (premiere_or_fallback x)) xs of
             Some x \<Rightarrow> Inl (projl (premiere_or_fallback x))
           | None \<Rightarrow> Inr (sorted_py sort_key_premiere True xs))
      | COMMUNITY_RATING \<Rightarrow> Inr (sorted_py sort_key_rating False xs)
      | CRITIC_RATING \<Rightarrow> Inr (sorted_py sort_key_critic False xs)
      | DATE_CREATED \<Rightarrow> Inr (sorted_py sort_key_created True xs))"

definition get_jellyfin_display_order :: "CollectionOrder \<Rightarrow> string" where
  "get_jellyfin_display_order order =
     (case order of
        CUSTOM \<Rightarrow> ''Default''
      | SORT_NAME \<Rightarrow> ''SortName''
      | PREMIERE_DATE \<Rightarrow> ''PremiereDate''
      | DATE_CREATED \<Rightarrow> ''DateCreated''
      | COMMUNITY_RATING \<Rightarrow> ''CommunityRating''
      | CRITIC_RATING \<Rightarrow> ''CommunityRating''
      | RANDOM \<Rightarrow> ''Default'')"

section \<open>The library server\<close>

text \<open>
  Modelled from the spec: \<^verbatim>\<open>JellyfinClient\<close> (\<^verbatim>\<open>jfc/clients/jellyfin.py\<close>) and the server
  behind it are not among the sources. Section 6 of the specification gives the interface:
  the members of a collection are a set of local identifiers, \<^verbatim>\<open>add_to_collection\<close> and
  \<^verbatim>\<open>remove_from_collection\<close> add and remove identifiers, \<^verbatim>\<open>create_collection\<close> returns the
  identifier of a new, empty collection. The server keeps the members in insertion order (its
  display order, section 4.5). Every call that changes the server is also recorded in
  \<open>jf_calls\<close>, in the order of the calls.
\<close>

datatype jf_call =
  CreateCollection string
| AddToCollection string "string list"
| RemoveFromCollection string "string list"
| UpdateCollectionMetadata string "string option" "string option" string
| UploadCollectionPoster string string

record jellyfin =
  jf_collections :: "(string \<times> string) list"
  jf_members :: "string \<Rightarrow> string list"
  jf_calls :: "jf_call list"

definition fresh_id :: "(string \<times> string) list \<Rightarrow> string" where
  "fresh_id cs = replicate (Suc (foldr (\<lambda>c n. max (length (fst c)) n) cs 0)) (CHR ''c'')"

definition create_collection :: "jellyfin \<Rightarrow> string \<Rightarrow> jellyfin \<times> string" where
  "create_collection jf nm =
     (let i = fresh_id (jf_collections jf)
      in (jf\<lparr>jf_collections := jf_collections jf @ [(i, nm)],
              jf_members := (jf_members jf)(i := []),
              jf_calls := jf_calls jf @ [CreateCollection nm]\<rparr>, i))"

definition get_collection_items :: "jellyfin \<Rightarrow> string \<Rightarrow> string list" where
  "get_collection_items jf cid = jf_members jf cid"

definition add_to_collection :: "jellyfin \<Rightarrow> string \<Rightarrow> string list \<Rightarrow> jellyfin" where
  "add_to_collection jf cid ids =
     jf\<lparr>jf_members := (jf_members jf)
            (cid := jf_members jf cid @ filter (\<lambda>i. i \<notin> set (jf_members jf cid)) (rev (remdups (rev ids)))),
        jf_calls := jf_calls jf @ [AddToCollection cid ids]\<rparr>"

definition remove_from_collection :: "jellyfin \<Rightarrow> string \<Rightarrow> string list \<Rightarrow> jellyfin" where
  "remove_from_collection jf cid ids =
     jf\<lparr>jf_members := (jf_members jf)(cid := filter (\<lambda>i. i \<notin> set ids) (jf_members jf cid)),
        jf_calls := jf_calls jf @ [RemoveFromCollection cid ids]\<rparr>"

definition update_collection_metadata ::
  "jellyfin \<Rightarrow> string \<Rightarrow> string option \<Rightarrow> string option \<Rightarrow> string \<Rightarrow> jellyfin" where
  "update_collection_metadata jf cid overview sort_nm display_order =
     jf\<lparr>jf_calls := jf_calls jf @ [UpdateCollectionMetadata cid overview sort_nm display_order]\<rparr>"

definition upload_collection_poster :: "jellyfin \<Rightarrow> string \<Rightarrow> string \<Rightarrow> jellyfin" where
  "upload_collection_poster jf cid p = jf\<lparr>jf_calls := jf_calls jf @ [UploadCollectionPoster cid p]\<rparr>"

section \<open>\<^verbatim>\<open>sync_collection\<close>\<close>

text \<open>The fields of \<^verbatim>\<open>CollectionReport\<close> (\<^verbatim>\<open>models/report.py\<close>) that the builder writes.\<close>

record CollectionReport =
  items_fetched :: nat
  items_after_filter :: nat
  fetched_titles :: "string list"
  matched_titles :: "string list"
  missing_titles :: "string list"
  added_titles :: "string list"
  items_added_to_collection :: nat
  items_removed_from_collection :: nat
  collection_existed :: bool
  items_sent_to_radarr :: nat
  items_sent_to_sonarr :: nat

text \<open>
  Lines 194 to 224 of \<^verbatim>\<open>sync_collection\<close>: from the members read from the server and the
  sorted items, the target list, the two set differences and the reorder decision. A Python
  set is a list without repetitions; the order in which \<^verbatim>\<open>list(to_add)\<close> enumerates a set is
  not fixed by Python and is the order of first occurrence here.
\<close>

record plan =
  current_ids :: "string list"
  target_ids_list :: "string list"
  to_add :: "string list"
  to_remove :: "string list"
  needs_reorder :: bool

definition pyset :: "string list \<Rightarrow> string list" where
  "pyset xs = rev (remdups (rev xs))"

text \<open>\<^verbatim>\<open>[item.jellyfin_id for item in sorted_items if item.jellyfin_id]\<close>\<close>

definition matched_ids :: "CollectionItem list \<Rightarrow> string list" where
  "matched_ids sorted_items =
     map (\<lambda>x. the (jellyfin_id x)) (filter (\<lambda>x. truthy_str (jellyfin_id x)) sorted_items)"

definition reconcile :: "string list \<Rightarrow> CollectionItem list \<Rightarrow> CollectionOrder \<Rightarrow> bool \<Rightarrow> plan" where
  "reconcile members sorted_items order existing =
     (let cur = pyset members;
          tl = matched_ids sorted_items;
          target_ids = pyset tl;
          ta = filter (\<lambda>i. i \<notin> set cur) target_ids;
          tr = filter (\<lambda>i. i \<notin> set target_ids) cur
      in \<lparr>current_ids = cur, target_ids_list = tl, to_add = ta, to_remove = tr,
          needs_reorder = (order \<noteq> CUSTOM \<and> (ta \<noteq> [] \<or> tr \<noteq> [] \<or> \<not> existing))\<rparr>)"

text \<open>Lines 226 to 247: clear and re-add in sorted order, or the simple add and remove.\<close>

definition apply_plan :: "jellyfin \<Rightarrow> string \<Rightarrow> plan \<Rightarrow> jellyfin" where
  "apply_plan jf cid p =
     (if needs_reorder p \<and> target_ids_list p \<noteq> [] then
        add_to_collection
          (if current_ids p \<noteq> [] then remove_from_collection jf cid (current_ids p) else jf)
          cid (target_ids_list p)
      else
        (let jf1 = (if to_add p \<noteq> [] then add_to_collection jf cid (to_add p) else jf)
         in if to_remove p \<noteq> [] then remove_from_collection jf1 cid (to_remove p) else jf1))"

text \<open>
  \<^verbatim>\<open>_add_missing_to_arr\<close> talks to the acquisition services only; it is the parameter
  \<open>arr\<close>, acting on their state \<open>'w\<close>, and may raise.
\<close>

type_synonym 'w arr_step =
  "'w \<Rightarrow> Collection \<Rightarrow> CollectionReport \<Rightarrow> error + ('w \<times> CollectionReport \<times> nat \<times> nat)"

text \<open>
  What a call leaves behind: the server, the acquisition services, the collection and the
  report (all three are updated in place by the source), and the returned pair
  \<^verbatim>\<open>(len(to_add), len(to_remove))\<close>. An exception escapes with the server as it was then.
\<close>

record 'w sync_out =
  out_jf :: jellyfin
  out_arr :: 'w
  out_collection :: Collection
  out_report :: CollectionReport
  out_result :: "nat \<times> nat"

type_synonym 'w sync_result = "(error \<times> jellyfin) + 'w sync_out"

definition sync_collection ::
  "CollectionBuilder \<Rightarrow> (string \<Rightarrow> string) \<Rightarrow> (CollectionItem list \<Rightarrow> CollectionItem list)
     \<Rightarrow> 'w arr_step \<Rightarrow> jellyfin \<Rightarrow> 'w \<Rightarrow> Collection \<Rightarrow> CollectionReport \<Rightarrow> bool
     \<Rightarrow> 'w sync_result" where
  "sync_collection b lower shuffle arr jf w c report add_missing_to_arr =
     (if dry_run b
      then Inr \<lparr>out_jf = jf, out_arr = w, out_collection = c, out_report = report, out_result = (0, 0)\<rparr>
      else
        let cfg = config c;
            existing = find (\<lambda>e. snd e = name cfg) (jf_collections jf);
            report1 = report\<lparr>collection_existed := (existing \<noteq> None)\<rparr>;
            (jf1, cid) = (case existing of
                            Some e \<Rightarrow> (jf, fst e)
                          | None \<Rightarrow> create_collection jf (name cfg));
            c1 = c\<lparr>collection_jellyfin_id := Some cid\<rparr>
        in case sort_items_for_collection lower shuffle (items c) (collection_order cfg) of
             Inl e \<Rightarrow> Inl (e, jf1)
           | Inr sorted_items \<Rightarrow>
               let p = reconcile (get_collection_items jf1 cid) sorted_items
                         (collection_order cfg) (existing \<noteq> None);
                   report2 = report1\<lparr>added_titles := added_titles report1 @
                               map title (filter (\<lambda>x. in_opt (jellyfin_id x) (to_add p)) (items c))\<rparr>;
                   jf2 = apply_plan jf1 cid p;
                   report3 = report2\<lparr>items_added_to_collection := length (to_add p),
                                      items_removed_from_collection := length (to_remove p)\<rparr>;
                   jf3 = update_collection_metadata jf2 cid (summary cfg) (sort_title cfg)
                           (get_jellyfin_display_order (collection_order cfg));
                   jf4 = (if truthy_str (poster cfg) \<and> cid \<noteq> []
                          then upload_collection_poster jf3 cid (the (poster cfg)) else jf3)
               in if add_missing_to_arr then
                    (case arr w c1 report3 of
                       Inl e \<Rightarrow> Inl (e, jf4)
                     | Inr (w', report4, radarr_count, sonarr_count) \<Rightarrow>
                         Inr \<lparr>out_jf = jf4, out_arr = w', out_collection = c1,
                              out_report = report4\<lparr>items_sent_to_radarr := radarr_count,
                                                   items_sent_to_sonarr := sonarr_count\<rparr>,
                              out_result = (length (to_add p), length (to_remove p))\<rparr>)
                  else Inr \<lparr>out_jf = jf4, out_arr = w, out_collection = c1, out_report = report3,
                           out_result = (length (to_add p), length (to_remove p))\<rparr>)"

text \<open>
  The calls that every run which is not a dry run makes after the membership step: the
  metadata update with the display order of the policy, and the poster upload when a poster is
  configured (\<^verbatim>\<open>_upload_poster\<close> does nothing for a collection whose identifier is empty).
\<close>

definition display_calls :: "string \<Rightarrow> CollectionConfig \<Rightarrow> jf_call list" where
  "display_calls cid cfg =
     UpdateCollectionMetadata cid (summary cfg) (sort_title cfg)
       (get_jellyfin_display_order (collection_order cfg))
     # (if truthy_str (poster cfg) \<and> cid \<noteq> []
        then [UploadCollectionPoster cid (the (poster cfg))] else [])"

section \<open>\<^verbatim>\<open>build_collection\<close>\<close>




section \<open>Properties used in the statements\<close>


text \<open>
  Position \<open>i\<close> of \<open>xs\<close> holds the first item of its primary id: the id is true and no
  earlier position has it.
\<close>

definition first_of_id :: "MediaItem list \<Rightarrow> nat \<Rightarrow> bool" where
  "first_of_id xs i =
     (truthy_int (tmdb_id (xs ! i)) \<and> (\<forall>j<i. tmdb_id (xs ! j) \<noteq> tmdb_id (xs ! i)))"

text \<open>A string in which every whitespace character is a single space between two others.\<close>

fun squeezed :: "string \<Rightarrow> bool" where
  "squeezed [] = True"
| "squeezed [c] = (\<not> is_space c \<or> c = CHR '' '')"
| "squeezed (c # d # cs) =
     ((\<not> is_space c \<or> (c = CHR '' '' \<and> \<not> is_space d)) \<and> squeezed (d # cs))"

section \<open>Example inputs\<close>

text \<open>
  \<^verbatim>\<open>MediaItem(title=t, year=y, media_type=MediaType.MOVIE, tmdb_id=i)\<close> and
  \<^verbatim>\<open>LibraryItem(jellyfin_id=j, title=t, year=y, tmdb_id=i, ...)\<close>, every other field with its
  default, as the tests build them.
\<close>

definition movie_item :: "string \<Rightarrow> int option \<Rightarrow> int option \<Rightarrow> MediaItem" where
  "movie_item t y i =
     \<lparr>title = t, year = y, tmdb_id = i, imdb_id = None, tvdb_id = None, media_type = MOVIE,
      genres = [], vote_average = None, vote_count = None, original_language = None,
      original_country = None\<rparr>"

definition library_movie :: "string \<Rightarrow> string \<Rightarrow> int option \<Rightarrow> int option \<Rightarrow> LibraryItem" where
  "library_movie j t y i =
     \<lparr>title = t, year = y, tmdb_id = i, imdb_id = None, tvdb_id = None, lib_jellyfin_id = j,
      lib_media_type = MOVIE, library_id = ''lib-1'', library_name = ''Films''\<rparr>"

definition collection_item :: "string \<Rightarrow> string option \<Rightarrow> string option \<Rightarrow> CollectionItem" where
  "collection_item t sn j =
     \<lparr>title = t, year = None, tmdb_id = None, imdb_id = None, tvdb_id = None, jellyfin_id = j,
      item_media_type = ''movie'', matched = (j \<noteq> None), in_library = (j \<noteq> None), sort_name = sn,
      premiere_date = None, community_rating = None, critic_rating = None, date_created = None\<rparr>"

text \<open>The catalog of the end-to-end scenario of the specification, and an item without id.\<close>

definition catalog_example :: "MediaItem list" where
  "catalog_example =
     [movie_item ''A'' (Some 2020) (Some 1), movie_item ''A-dup'' (Some 2020) (Some 1),
      movie_item ''B'' (Some 2021) (Some 2)]"

definition old_movie :: MediaItem where
  "old_movie = movie_item ''Old Movie'' (Some 2020) None"

definition no_filter :: CollectionFilter where
  "no_filter =
     \<lparr>year_gte = None, year_lte = None, vote_average_gte = None, critic_rating_gte = None,
      tmdb_vote_count_gte = None, country_not = [], origin_country_not = [],
      original_language_not = [], without_genres = [], with_genres = []\<rparr>"

definition top_config :: "CollectionOrder \<Rightarrow> CollectionConfig" where
  "top_config order =
     \<lparr>name = ''Top'', summary = None, sort_title = None, poster = None, collection_order = order,
      filters = no_filter, limit = None, tmdb_trending_weekly = Some 20,
      tmdb_trending_daily = None, tmdb_popular = Some 20, tmdb_discover = None,
      trakt_trending = None, trakt_popular = None, trakt_chart = None\<rparr>"


definition tmdb_up :: tmdb_client where
  "tmdb_up =
     \<lparr>tmdb_get_trending_movies = (\<lambda>w n. Inr [movie_item ''A'' (Some 2020) (Some 1)]),
      tmdb_get_trending_series = (\<lambda>w n. Inr []),
      tmdb_get_popular_movies =
        (\<lambda>n. Inr [movie_item ''A-dup'' (Some 2020) (Some 1), movie_item ''B'' (Some 2021) (Some 2)]),
      tmdb_get_popular_series = (\<lambda>n. Inr []),
      tmdb_discover_movies = (\<lambda>d. Inr []),
      tmdb_discover_series = (\<lambda>d. Inr [])\<rparr>"

definition builder_of :: "tmdb_client \<Rightarrow> bool \<Rightarrow> CollectionBuilder" where
  "builder_of t d = \<lparr>tmdb = t, trakt = None, dry_run = d\<rparr>"

text \<open>
  A server that already holds the collection ``Top'' with the two library items, and the
  collection computed for it: the same two items, the other way round.
\<close>

definition server_example :: jellyfin where
  "server_example =
     \<lparr>jf_collections = [(''c1'', ''Top'')],
      jf_members = (\<lambda>i. if i = ''c1'' then [''jf-1'', ''jf-2''] else []),
      jf_calls = []\<rparr>"

definition empty_server :: jellyfin where
  "empty_server = \<lparr>jf_collections = [], jf_members = (\<lambda>i. []), jf_calls = []\<rparr>"

definition top_collection :: "CollectionOrder \<Rightarrow> Collection" where
  "top_collection order =
     \<lparr>config = top_config order, collection_library_name = ''Films'',
      items = [collection_item ''B'' (Some ''x'') (Some ''jf-2''),
               collection_item ''A'' (Some ''x'') (Some ''jf-1'')],
      collection_jellyfin_id = None\<rparr>"

definition empty_report :: CollectionReport where
  "empty_report =
     \<lparr>items_fetched = 0, items_after_filter = 0, fetched_titles = [], matched_titles = [],
      missing_titles = [], added_titles = [], items_added_to_collection = 0,
      items_removed_from_collection = 0, collection_existed = False, items_sent_to_radarr = 0,
      items_sent_to_sonarr = 0\<rparr>"

definition no_arr :: "unit arr_step" where
  "no_arr w c r = Inr (w, r, 0, 0)"

section \<open>The normalizer on its own output\<close>

lemma lower_char_idem: "lower_char (lower_char c) = lower_char c"
  by (simp add: lower_char_def Let_def)

lemma squeeze_not_space_hd: "s = [] \<or> \<not> is_space (hd s) \<Longrightarrow> squeeze s = [] \<or> \<not> is_space (hd (squeeze s))"
  by (cases s) auto

lemma dropWhile_hd: "dropWhile P s = [] \<or> \<not> P (hd (dropWhile P s))"
  by (metis hd_dropWhile)

lemma squeezed_squeeze: "squeezed (squeeze s)"
proof (induction s rule: squeeze.induct)
  case 1
  then show ?case by simp
next
  case (2 c cs)
  show ?case
  proof (cases "is_space c")
    case True
    let ?t = "dropWhile is_space cs"
    have h: "squeeze ?t = [] \<or> \<not> is_space (hd (squeeze ?t))"
      by (rule squeeze_not_space_hd) (rule dropWhile_hd)
    from True 2 have "squeezed (squeeze ?t)" by simp
    with h True show ?thesis by (cases "squeeze ?t") auto
  next
    case False
    with 2 have "squeezed (squeeze cs)" by simp
    with False show ?thesis by (cases "squeeze cs") auto
  qed
qed

lemma squeeze_squeezed: "squeezed s \<Longrightarrow> squeeze s = s"
proof (induction s rule: squeezed.induct)
  case 1
  then show ?case by simp
next
  case (2 c)
  then show ?case by auto
next
  case (3 c d cs)
  then show ?case by auto
qed

lemma squeezed_tl: "squeezed (c # cs) \<Longrightarrow> squeezed cs"
  by (cases cs) auto

lemma squeezed_dropWhile: "squeezed s \<Longrightarrow> squeezed (dropWhile P s)"
  by (induction s) (auto dest: squeezed_tl)

lemma squeezed_rstrip: "squeezed s \<Longrightarrow> squeezed (rstrip s)"
proof (induction s rule: squeezed.induct)
  case 1
  then show ?case by simp
next
  case (2 c)
  then show ?case by auto
next
  case (3 c d cs)
  then show ?case by (auto split: list.splits if_splits)
qed

lemma rstrip_idem: "rstrip (rstrip s) = rstrip s"
  by (induction s) (auto split: list.splits if_splits)

lemma rstrip_hd: "\<not> is_space c \<Longrightarrow> rstrip (c # cs) = c # rstrip cs"
  by (simp split: list.splits)

lemma trim_idem: "trim (trim s) = trim s"
proof (cases "dropWhile is_space s")
  case Nil
  then have "trim s = []" by (simp only: trim_def lstrip_def rstrip.simps)
  then show ?thesis by (simp add: trim_def lstrip_def)
next
  case (Cons c cs)
  then have ns: "\<not> is_space c" by (metis hd_dropWhile list.sel(1) list.distinct(1))
  from Cons have "trim s = c # rstrip cs"
    by (simp only: trim_def lstrip_def rstrip_hd [OF ns])
  moreover have "trim (c # rstrip cs) = c # rstrip cs"
    using ns by (simp add: trim_def lstrip_def rstrip_idem rstrip_hd del: rstrip.simps)
  ultimately show ?thesis by simp
qed

lemma set_rstrip: "set (rstrip s) \<subseteq> set s"
  by (induction s) (auto split: list.splits if_splits)

lemma set_trim: "set (trim s) \<subseteq> set s"
proof -
  have "set (rstrip (dropWhile is_space s)) \<subseteq> set (dropWhile is_space s)"
    by (rule set_rstrip)
  also have "\<dots> \<subseteq> set s"
    by (auto dest: set_dropWhileD)
  finally show ?thesis by (simp add: trim_def lstrip_def)
qed

lemma set_squeeze: "x \<in> set (squeeze s) \<Longrightarrow> x = CHR '' '' \<or> (x \<in> set s \<and> \<not> is_space x)"
proof (induction s rule: squeeze.induct)
  case 1
  then show ?case by simp
next
  case (2 c cs)
  then show ?case by (auto split: if_splits dest: set_dropWhileD)
qed

lemma set_strip_article: "set (strip_article s) \<subseteq> set s"
  by (auto simp: strip_article_def Let_def dest: set_dropWhileD)

lemma normalize_title_chars:
  assumes "c \<in> set (normalize_title s)"
  shows "(is_alnum c \<or> c = CHR '' '') \<and> lower_char c = c"
proof -
  let ?z = "strip_article (str_lower s)"
  from assms have "c \<in> set (squeeze (replace_punct ?z))"
    using set_trim by (auto simp: normalize_title_def)
  then have "c = CHR '' '' \<or> (c \<in> set (replace_punct ?z) \<and> \<not> is_space c)"
    by (rule set_squeeze)
  then show ?thesis
  proof
    assume "c = CHR '' ''"
    then show ?thesis by (simp add: lower_char_def)
  next
    assume h: "c \<in> set (replace_punct ?z) \<and> \<not> is_space c"
    then have a: "is_alnum c" and z: "c \<in> set ?z"
      by (auto simp: replace_punct_def is_space_def split: if_splits)
    from z have "c \<in> set (str_lower s)" using set_strip_article by auto
    then have "lower_char c = c" by (auto simp: str_lower_def lower_char_idem)
    with a show ?thesis by simp
  qed
qed

lemma normalize_title_fixed_point:
  assumes "strip_article (normalize_title x) = normalize_title x"
  shows "normalize_title (normalize_title x) = normalize_title x"
proof -
  let ?y = "normalize_title x"
  have chars: "\<And>c. c \<in> set ?y \<Longrightarrow> (is_alnum c \<or> c = CHR '' '') \<and> lower_char c = c"
    by (rule normalize_title_chars)
  have l: "str_lower ?y = ?y"
    unfolding str_lower_def by (rule map_idI) (simp add: chars)
  have r: "replace_punct ?y = ?y"
    unfolding replace_punct_def by (rule map_idI) (use chars in auto)
  have "squeezed ?y"
    by (simp add: normalize_title_def trim_def lstrip_def squeezed_rstrip squeezed_dropWhile squeezed_squeeze)
  then have q: "squeeze ?y = ?y" by (rule squeeze_squeezed)
  have t: "trim ?y = ?y"
    by (simp add: normalize_title_def trim_idem)
  have "normalize_title ?y = trim (squeeze (replace_punct (strip_article (str_lower ?y))))"
    by (simp add: normalize_title_def)
  also have "\<dots> = ?y" by (simp only: l assms r q t)
  finally show ?thesis .
qed

section \<open>The deduplication loop\<close>

lemma dedup_loop_subseq: "subseq (dedup_loop S xs) xs"
  by (induction xs arbitrary: S) (auto split: option.splits)

lemma dedup_loop_member:
  "x \<in> set (dedup_loop S xs) \<Longrightarrow>
     \<exists>i. tmdb_id x = Some i \<and> i \<noteq> 0 \<and> i \<notin> S \<and> find (\<lambda>y. tmdb_id y = Some i) xs = Some x"
proof (induction xs arbitrary: S)
  case Nil
  then show ?case by simp
next
  case (Cons a xs)
  show ?case
  proof (cases "tmdb_id a")
    case None
    with Cons.prems have "x \<in> set (dedup_loop S xs)" by simp
    from Cons.IH [OF this] None show ?thesis by auto
  next
    case (Some j)
    show ?thesis
    proof (cases "j \<noteq> 0 \<and> j \<notin> S")
      case True
      with Some Cons.prems have "x = a \<or> x \<in> set (dedup_loop (insert j S) xs)" by auto
      then show ?thesis
      proof
        assume "x = a"
        with Some True show ?thesis by simp
      next
        assume "x \<in> set (dedup_loop (insert j S) xs)"
        from Cons.IH [OF this] Some show ?thesis by auto
      qed
    next
      case False
      with Some Cons.prems have m: "x \<in> set (dedup_loop S xs)" by auto
      from Cons.IH [OF m] obtain i where i: "tmdb_id x = Some i" "i \<noteq> 0" "i \<notin> S"
        "find (\<lambda>y. tmdb_id y = Some i) xs = Some x" by blast
      with False have "i \<noteq> j" by auto
      with i Some show ?thesis by simp
    qed
  qed
qed

lemma dedup_loop_distinct: "distinct (map tmdb_id (dedup_loop S xs))"
proof (induction xs arbitrary: S)
  case Nil
  then show ?case by simp
next
  case (Cons a xs)
  show ?case
  proof (cases "tmdb_id a")
    case None
    with Cons.IH show ?thesis by simp
  next
    case (Some j)
    have "Some j \<notin> tmdb_id ` set (dedup_loop (insert j S) xs)"
      using dedup_loop_member [of _ "insert j S" xs] by fastforce
    with Some Cons.IH show ?thesis by auto
  qed
qed

lemma dedup_loop_keeps_ids:
  "x \<in> set xs \<Longrightarrow> tmdb_id x = Some i \<Longrightarrow> i \<noteq> 0 \<Longrightarrow> i \<notin> S \<Longrightarrow>
     Some i \<in> tmdb_id ` set (dedup_loop S xs)"
proof (induction xs arbitrary: S)
  case Nil
  then show ?case by simp
next
  case (Cons a xs)
  show ?case
  proof (cases "tmdb_id a = Some i")
    case True
    with Cons.prems show ?thesis by (simp add: image_iff) 
  next
    case False
    with Cons.prems have x: "x \<in> set xs" by auto
    show ?thesis
    proof (cases "tmdb_id a")
      case None
      with Cons.IH [OF x Cons.prems(2,3,4)] show ?thesis by simp
    next
      case (Some j)
      with False have "i \<noteq> j" by simp
      with Cons.prems have "i \<notin> insert j S" by simp
      from Cons.IH [OF x Cons.prems(2,3) this] Cons.IH [OF x Cons.prems(2,3,4)] Some
      show ?thesis by auto
    qed
  qed
qed

lemma dedup_loop_snoc:
  "dedup_loop S (xs @ [x]) =
     dedup_loop S xs @
       (case tmdb_id x of
          None \<Rightarrow> []
        | Some i \<Rightarrow> if i \<noteq> 0 \<and> i \<notin> S \<and> Some i \<notin> tmdb_id ` set xs then [x] else [])"
proof (induction xs arbitrary: S)
  case Nil
  then show ?case by (simp split: option.splits)
next
  case (Cons a xs)
  show ?case
  proof (cases "tmdb_id a")
    case None
    with Cons.IH [of S] show ?thesis by (auto split: option.splits)
  next
    case (Some j)
    show ?thesis
    proof (cases "j \<noteq> 0 \<and> j \<notin> S")
      case True
      with Some Cons.IH [of "insert j S"] show ?thesis by (auto split: option.splits)
    next
      case False
      with Some Cons.IH [of S] show ?thesis by (auto split: option.splits)
    qed
  qed
qed

lemma deduplicate_snoc:
  "deduplicate (xs @ [x]) =
     (if truthy_int (tmdb_id x) \<and> tmdb_id x \<notin> tmdb_id ` set xs
      then deduplicate xs @ [x] else deduplicate xs)"
  by (auto simp: deduplicate_def dedup_loop_snoc truthy_int_def split: option.splits)

lemma deduplicate_positions:
  "deduplicate xs = map (\<lambda>i. xs ! i) (filter (first_of_id xs) [0..<length xs])"
proof (induction xs rule: rev_induct)
  case Nil
  then show ?case by (simp add: deduplicate_def)
next
  case (snoc x xs)
  have f: "filter (first_of_id (xs @ [x])) [0..<length xs] = filter (first_of_id xs) [0..<length xs]"
    by (rule filter_cong) (auto simp: first_of_id_def nth_append)
  have m: "map (\<lambda>i. (xs @ [x]) ! i) (filter (first_of_id xs) [0..<length xs])
             = map (\<lambda>i. xs ! i) (filter (first_of_id xs) [0..<length xs])"
    by (rule map_cong) (auto simp: nth_append)
  have l: "first_of_id (xs @ [x]) (length xs)
             \<longleftrightarrow> truthy_int (tmdb_id x) \<and> tmdb_id x \<notin> tmdb_id ` set xs"
  proof -
    have "(\<forall>j<length xs. tmdb_id (xs ! j) \<noteq> tmdb_id x) \<longleftrightarrow> tmdb_id x \<notin> tmdb_id ` set xs"
      by (metis (no_types, lifting) image_iff in_set_conv_nth)
    then show ?thesis
      by (simp add: first_of_id_def nth_append)
  qed
  show ?case
    by (simp add: deduplicate_snoc snoc.IH f m l)
qed



section \<open>One filter at a time\<close>

lemma item_passes_year:
  "year item = None \<Longrightarrow> item_passes f item = item_passes (f\<lparr>year_gte := None, year_lte := None\<rparr>) item"
  by (simp add: item_passes_def truthy_int_def)

lemma item_passes_vote_average:
  "vote_average item = None \<Longrightarrow>
     item_passes f item = item_passes (f\<lparr>vote_average_gte := None, critic_rating_gte := None\<rparr>) item"
  by (simp add: item_passes_def truthy_real_def)

lemma item_passes_vote_count:
  "vote_count item = None \<Longrightarrow> item_passes f item = item_passes (f\<lparr>tmdb_vote_count_gte := None\<rparr>) item"
  by (simp add: item_passes_def truthy_int_def)

lemma item_passes_country:
  "original_country item = None \<Longrightarrow>
     item_passes f item = item_passes (f\<lparr>country_not := [], origin_country_not := []\<rparr>) item"
  by (simp add: item_passes_def truthy_str_def)

lemma item_passes_language:
  "original_language item = None \<Longrightarrow>
     item_passes f item = item_passes (f\<lparr>original_language_not := []\<rparr>) item"
  by (simp add: item_passes_def truthy_str_def)

lemma item_passes_genres:
  "genres item = [] \<Longrightarrow>
     item_passes f item = item_passes (f\<lparr>without_genres := [], with_genres := []\<rparr>) item"
  by (simp add: item_passes_def)

lemma item_passes_bare:
  "year item = None \<Longrightarrow> vote_average item = None \<Longrightarrow> vote_count item = None \<Longrightarrow>
   original_country item = None \<Longrightarrow> original_language item = None \<Longrightarrow> genres item = [] \<Longrightarrow>
   item_passes f item"
  by (simp add: item_passes_def truthy_int_def truthy_real_def truthy_str_def)

section \<open>Python's sort\<close>




section \<open>Reconciliation against the server\<close>

lemma set_pyset: "set (pyset xs) = set xs"
  by (simp add: pyset_def)

lemma members_add: "set (jf_members (add_to_collection jf cid ids) cid) = set (jf_members jf cid) \<union> set ids"
  by (auto simp: add_to_collection_def)

lemma members_remove: "set (jf_members (remove_from_collection jf cid ids) cid) = set (jf_members jf cid) - set ids"
  by (auto simp: remove_from_collection_def)

lemma collections_add: "jf_collections (add_to_collection jf cid ids) = jf_collections jf"
  by (simp add: add_to_collection_def)

lemma collections_remove: "jf_collections (remove_from_collection jf cid ids) = jf_collections jf"
  by (simp add: remove_from_collection_def)

lemma reconcile_fields:
  "current_ids (reconcile ms srt ord ex) = pyset ms"
  "target_ids_list (reconcile ms srt ord ex) = matched_ids srt"
  "set (to_add (reconcile ms srt ord ex)) = set (matched_ids srt) - set ms"
  "set (to_remove (reconcile ms srt ord ex)) = set ms - set (matched_ids srt)"
  "needs_reorder (reconcile ms srt ord ex)
     = (ord \<noteq> CUSTOM \<and> (to_add (reconcile ms srt ord ex) \<noteq> []
          \<or> to_remove (reconcile ms srt ord ex) \<noteq> [] \<or> \<not> ex))"
  by (auto simp: reconcile_def Let_def set_pyset)

lemma apply_plan_collections: "jf_collections (apply_plan jf cid p) = jf_collections jf"
  by (simp add: apply_plan_def Let_def collections_add collections_remove)

lemma apply_plan_members:
  "set (jf_members (apply_plan jf cid (reconcile (get_collection_items jf cid) srt ord ex)) cid)
     = set (matched_ids srt)"
proof -
  let ?p = "reconcile (get_collection_items jf cid) srt ord ex"
  let ?ms = "jf_members jf cid"
  have ta: "set (to_add ?p) = set (matched_ids srt) - set ?ms"
    and tr: "set (to_remove ?p) = set ?ms - set (matched_ids srt)"
    and cur: "set (current_ids ?p) = set ?ms"
    and tl: "target_ids_list ?p = matched_ids srt"
    by (simp_all add: reconcile_fields get_collection_items_def set_pyset)
  show ?thesis
  proof (cases "needs_reorder ?p \<and> target_ids_list ?p \<noteq> []")
    case True
    let ?jf0 = "if current_ids ?p \<noteq> [] then remove_from_collection jf cid (current_ids ?p) else jf"
    from True have "apply_plan jf cid ?p = add_to_collection ?jf0 cid (target_ids_list ?p)"
      by (simp add: apply_plan_def)
    then have "set (jf_members (apply_plan jf cid ?p) cid)
                 = set (jf_members ?jf0 cid) \<union> set (target_ids_list ?p)"
      by (simp only: members_add)
    also have "set (jf_members ?jf0 cid) = {}"
    proof (cases "current_ids ?p = []")
      case True
      with cur have "set ?ms = {}" by simp
      with True show ?thesis by simp
    next
      case False
      then have "set (jf_members ?jf0 cid) = set ?ms - set (current_ids ?p)"
        by (simp only: if_True members_remove simp_thms)
      with cur show ?thesis by simp
    qed
    finally show ?thesis by (simp add: tl)
  next
    case False
    let ?jf1 = "if to_add ?p \<noteq> [] then add_to_collection jf cid (to_add ?p) else jf"
    have m1: "set (jf_members ?jf1 cid) = set ?ms \<union> set (to_add ?p)"
      by (auto simp: members_add)
    have "apply_plan jf cid ?p
            = (if to_remove ?p \<noteq> [] then remove_from_collection ?jf1 cid (to_remove ?p) else ?jf1)"
      using False by (simp only: apply_plan_def if_False Let_def)
    then have "set (jf_members (apply_plan jf cid ?p) cid) = set (jf_members ?jf1 cid) - set (to_remove ?p)"
      by (auto simp: members_remove)
    with m1 ta tr show ?thesis by auto
  qed
qed

lemma apply_plan_in_sync:
  assumes "set (get_collection_items jf cid) = set (matched_ids srt)"
  shows "to_add (reconcile (get_collection_items jf cid) srt ord True) = []"
    and "to_remove (reconcile (get_collection_items jf cid) srt ord True) = []"
    and "apply_plan jf cid (reconcile (get_collection_items jf cid) srt ord True) = jf"
proof -
  let ?p = "reconcile (get_collection_items jf cid) srt ord True"
  from assms have "set (to_add ?p) = {}" and "set (to_remove ?p) = {}"
    by (simp_all add: reconcile_fields)
  then show a: "to_add ?p = []" and r: "to_remove ?p = []" by simp_all
  then have "\<not> needs_reorder ?p" by (simp add: reconcile_fields(5))
  with a r show "apply_plan jf cid ?p = jf" by (simp add: apply_plan_def)
qed

lemma sort_items_no_shuffle:
  "order \<noteq> RANDOM \<Longrightarrow>
     sort_items_for_collection lower s1 xs order = sort_items_for_collection lower s2 xs order"
  by (cases order) (simp_all add: sort_items_for_collection_def)

text \<open>A collection whose members already are the target set: nothing but the display calls.\<close>

lemma sync_collection_in_sync:
  assumes nd: "\<not> dry_run b"
    and ex: "find (\<lambda>e. snd e = name (config c)) (jf_collections jf) = Some (cid, nm)"
    and so: "sort_items_for_collection lower shuffle (items c) (collection_order (config c)) = Inr srt"
    and eq: "set (get_collection_items jf cid) = set (matched_ids srt)"
    and res: "sync_collection b lower shuffle arr jf w c report flag = Inr out"
  shows "out_result out = (0, 0)"
    and "jf_members (out_jf out) = jf_members jf"
    and "jf_collections (out_jf out) = jf_collections jf"
    and "jf_calls (out_jf out) = jf_calls jf @ display_calls cid (config c)"
proof -
  note ap = apply_plan_in_sync [OF eq, of "collection_order (config c)"]
  from res nd ex so ap
  show "out_result out = (0, 0)"
    by (auto simp: sync_collection_def Let_def split: if_splits sum.splits prod.splits)
  from res nd ex so ap
  show "jf_members (out_jf out) = jf_members jf"
    by (auto simp: sync_collection_def Let_def update_collection_metadata_def
          upload_collection_poster_def split: if_splits sum.splits prod.splits)
  from res nd ex so ap
  show "jf_collections (out_jf out) = jf_collections jf"
    by (auto simp: sync_collection_def Let_def update_collection_metadata_def
          upload_collection_poster_def split: if_splits sum.splits prod.splits)
  from res nd ex so ap
  show "jf_calls (out_jf out) = jf_calls jf @ display_calls cid (config c)"
    by (auto simp: sync_collection_def Let_def update_collection_metadata_def
          upload_collection_poster_def display_calls_def split: if_splits sum.splits prod.splits)
qed

lemma find_append_new:
  "find P xs = None \<Longrightarrow> P y \<Longrightarrow> find P (xs @ [y]) = Some y"
  by (induction xs) (auto split: if_splits)

text \<open>After a run that returned, the collection exists and its members are the target set.\<close>

lemma sync_collection_establishes:
  assumes nd: "\<not> dry_run b"
    and res: "sync_collection b lower shuffle arr jf w c report flag = Inr out"
  shows "\<exists>cid srt.
           find (\<lambda>e. snd e = name (config c)) (jf_collections (out_jf out)) = Some (cid, name (config c))
           \<and> sort_items_for_collection lower shuffle (items c) (collection_order (config c)) = Inr srt
           \<and> set (get_collection_items (out_jf out) cid) = set (matched_ids srt)
           \<and> items (out_collection out) = items c \<and> config (out_collection out) = config c
           \<and> collection_jellyfin_id (out_collection out) = Some cid"
proof -
  let ?cfg = "config c"
  obtain srt where so: "sort_items_for_collection lower shuffle (items c) (collection_order ?cfg) = Inr srt"
    using res nd by (auto simp: sync_collection_def Let_def split: sum.splits prod.splits)
  show ?thesis
  proof (cases "find (\<lambda>e. snd e = name ?cfg) (jf_collections jf)")
    case None
    let ?i = "fresh_id (jf_collections jf)"
    let ?jf1 = "fst (create_collection jf (name ?cfg))"
    have cr: "create_collection jf (name ?cfg) = (?jf1, ?i)"
      by (simp add: create_collection_def Let_def)
    have f1: "find (\<lambda>e. snd e = name ?cfg) (jf_collections ?jf1) = Some (?i, name ?cfg)"
      using None by (simp add: create_collection_def Let_def find_append_new)
    let ?p = "reconcile (get_collection_items ?jf1 ?i) srt (collection_order ?cfg) False"
    let ?jf2 = "apply_plan ?jf1 ?i ?p"
    have m: "set (jf_members ?jf2 ?i) = set (matched_ids srt)"
      by (rule apply_plan_members)
    have c2: "jf_collections ?jf2 = jf_collections ?jf1"
      by (rule apply_plan_collections)
    from res nd None so cr
    have "jf_members (out_jf out) = jf_members ?jf2 \<and> jf_collections (out_jf out) = jf_collections ?jf2
        \<and> items (out_collection out) = items c \<and> config (out_collection out) = config c
        \<and> collection_jellyfin_id (out_collection out) = Some ?i"
      by (auto simp: sync_collection_def Let_def update_collection_metadata_def
            upload_collection_poster_def split: if_splits sum.splits prod.splits)
    with m c2 f1 so show ?thesis by (simp add: get_collection_items_def)
  next
    case (Some e)
    let ?p = "reconcile (get_collection_items jf (fst e)) srt (collection_order ?cfg) True"
    let ?jf2 = "apply_plan jf (fst e) ?p"
    from Some have sn: "snd e = name ?cfg" by (auto simp: find_Some_iff)
    have m: "set (jf_members ?jf2 (fst e)) = set (matched_ids srt)"
      by (rule apply_plan_members)
    have c2: "jf_collections ?jf2 = jf_collections jf"
      by (rule apply_plan_collections)
    from res nd Some so
    have "jf_members (out_jf out) = jf_members ?jf2 \<and> jf_collections (out_jf out) = jf_collections ?jf2
        \<and> items (out_collection out) = items c \<and> config (out_collection out) = config c
        \<and> collection_jellyfin_id (out_collection out) = Some (fst e)"
      by (auto simp: sync_collection_def Let_def update_collection_metadata_def
            upload_collection_poster_def split: if_splits sum.splits prod.splits)
    moreover from Some sn
    have "find (\<lambda>e. snd e = name ?cfg) (jf_collections jf) = Some (fst e, name ?cfg)"
      by (metis prod.collapse)
    ultimately show ?thesis using m c2 so by (auto simp: get_collection_items_def)
  qed
qed

section \<open>The claims\<close>

subsection \<open>Deduplication in \<^verbatim>\<open>_fetch_items\<close>\<close>

text \<open>
  Claim C1, as amended. The deduplication step of \<^verbatim>\<open>_fetch_items\<close> keeps, of the
  concatenated provider results, exactly the first item of every primary id (\<^verbatim>\<open>tmdb_id\<close>)
  that occurs, in the original relative order: the output is the list of the items at those
  positions of the input, in ascending order of position, whose primary id is true and occurs
  at no earlier position. So the output is a subsequence of the input, no primary id occurs
  twice in it, every item of it carries a primary id and is the first item of the input with
  that id, and every primary id of the input is the id of an item of the output; and an item
  appended to the input is appended to the output exactly when it carries a primary id that no
  item of the input has. An item that lacks a primary id (\<^verbatim>\<open>None\<close> or 0) is not kept: it is
  dropped.
\<close>

theorem fetch_items_dedup:
  "subseq (deduplicate xs) xs
   \<and> distinct (map tmdb_id (deduplicate xs))
   \<and> (\<forall>x \<in> set (deduplicate xs).
        truthy_int (tmdb_id x) \<and> find (\<lambda>y. tmdb_id y = tmdb_id x) xs = Some x)
   \<and> (\<forall>x \<in> set xs. truthy_int (tmdb_id x) \<longrightarrow> tmdb_id x \<in> tmdb_id ` set (deduplicate xs))
   \<and> (\<forall>x \<in> set xs. \<not> truthy_int (tmdb_id x) \<longrightarrow> x \<notin> set (deduplicate xs))
   \<and> deduplicate xs = map (\<lambda>i. xs ! i) (filter (first_of_id xs) [0..<length xs])
   \<and> deduplicate [] = []
   \<and> deduplicate (xs @ [z])
       = (if truthy_int (tmdb_id z) \<and> tmdb_id z \<notin> tmdb_id ` set xs
          then deduplicate xs @ [z] else deduplicate xs)"
proof (intro conjI ballI impI)
  show "deduplicate xs = map (\<lambda>i. xs ! i) (filter (first_of_id xs) [0..<length xs])"
    by (rule deduplicate_positions)
  show "deduplicate [] = []"
    by (simp add: deduplicate_def)
  show "deduplicate (xs @ [z])
          = (if truthy_int (tmdb_id z) \<and> tmdb_id z \<notin> tmdb_id ` set xs
             then deduplicate xs @ [z] else deduplicate xs)"
    by (rule deduplicate_snoc)
  show "subseq (deduplicate xs) xs"
    by (simp add: deduplicate_def dedup_loop_subseq)
  show "distinct (map tmdb_id (deduplicate xs))"
    by (simp add: deduplicate_def dedup_loop_distinct)
next
  fix x assume "x \<in> set (deduplicate xs)"
  then have "x \<in> set (dedup_loop {} xs)" by (simp add: deduplicate_def)
  from dedup_loop_member [OF this]
  show "truthy_int (tmdb_id x)" and "find (\<lambda>y. tmdb_id y = tmdb_id x) xs = Some x"
    by (auto simp: truthy_int_def)
next
  fix x assume "x \<in> set xs" and "truthy_int (tmdb_id x)"
  then show "tmdb_id x \<in> tmdb_id ` set (deduplicate xs)"
    using dedup_loop_keeps_ids [of x xs _ "{}"]
    by (auto simp: truthy_int_def deduplicate_def split: option.splits)
next
  fix x assume "x \<in> set xs" and n: "\<not> truthy_int (tmdb_id x)"
  show "x \<notin> set (deduplicate xs)"
  proof
    assume "x \<in> set (deduplicate xs)"
    then have "x \<in> set (dedup_loop {} xs)" by (simp add: deduplicate_def)
    from dedup_loop_member [OF this] n show False by (auto simp: truthy_int_def)
  qed
qed

text \<open>
  The end-to-end scenario of the specification with an item without id appended: ``A'' and
  ``B'' remain, ``A-dup'' and the item without id are gone.
\<close>

theorem fetch_items_dedup_witness:
  "map title (deduplicate (catalog_example @ [old_movie])) = [''A'', ''B'']
   \<and> old_movie \<in> set (catalog_example @ [old_movie])
   \<and> \<not> truthy_int (tmdb_id old_movie)
   \<and> old_movie \<notin> set (deduplicate (catalog_example @ [old_movie]))
   \<and> subseq (deduplicate (catalog_example @ [old_movie])) (catalog_example @ [old_movie])
   \<and> filter (first_of_id (catalog_example @ [old_movie])) [0..<length (catalog_example @ [old_movie])]
       = [0, 2]
   \<and> deduplicate (catalog_example @ [old_movie])
       = map (\<lambda>i. (catalog_example @ [old_movie]) ! i) [0, 2]"
proof -
  have a: "map title (deduplicate (catalog_example @ [old_movie])) = [''A'', ''B'']"
    by code_simp
  have p: "filter (first_of_id (catalog_example @ [old_movie]))
             [0..<length (catalog_example @ [old_movie])] = [0, 2]"
    by code_simp
  have m: "old_movie \<in> set (catalog_example @ [old_movie])"
    by simp
  have n: "\<not> truthy_int (tmdb_id old_movie)"
    by (simp add: old_movie_def movie_item_def truthy_int_def)
  from fetch_items_dedup [of "catalog_example @ [old_movie]"] m n
  have d: "old_movie \<notin> set (deduplicate (catalog_example @ [old_movie]))"
    and q: "subseq (deduplicate (catalog_example @ [old_movie])) (catalog_example @ [old_movie])"
    and e: "deduplicate (catalog_example @ [old_movie])
           = map (\<lambda>i. (catalog_example @ [old_movie]) ! i)
               (filter (first_of_id (catalog_example @ [old_movie]))
                  [0..<length (catalog_example @ [old_movie])])"
    by blast+
  from e have "deduplicate (catalog_example @ [old_movie])
                 = map (\<lambda>i. (catalog_example @ [old_movie]) ! i) [0, 2]"
    by (simp only: p)
  with a m n p d q show ?thesis by blast
qed

text \<open>
  Against C1 as stated: an item without primary id, alone in the provider results, is not in the
  output.
\<close>

theorem fetch_items_dedup_counterexample:
  "tmdb_id old_movie = None \<and> old_movie \<in> set [old_movie] \<and> old_movie \<notin> set (deduplicate [old_movie])"
  by (simp add: old_movie_def movie_item_def deduplicate_def)

subsection \<open>Reordering a collection that is already in sync\<close>

text \<open>
  Claim C2, as amended. For a collection that already exists on the server with exactly the
  members of the computed target set, \<^verbatim>\<open>sync_collection\<close> under the ordering policy
  \<^verbatim>\<open>SORT_NAME\<close> (as under every policy) issues no membership mutation: \<^verbatim>\<open>to_add\<close> and
  \<^verbatim>\<open>to_remove\<close> are empty, it returns \<open>(0, 0)\<close>, the members and their order on the server are
  unchanged, and the only calls it makes are the update of the display metadata (with the
  display order of the policy) and, when a poster is configured, the poster upload. The
  collection is not cleared and re-added.
\<close>

theorem sync_collection_in_sync_no_reorder:
  assumes "\<not> dry_run b"
    and "find (\<lambda>e. snd e = name (config c)) (jf_collections jf) = Some (cid, nm)"
    and "sort_items_for_collection lower shuffle (items c) (collection_order (config c)) = Inr srt"
    and "set (get_collection_items jf cid) = set (matched_ids srt)"
    and "sync_collection b lower shuffle arr jf w c report flag = Inr out"
  shows "out_result out = (0, 0)
       \<and> jf_members (out_jf out) = jf_members jf
       \<and> jf_calls (out_jf out) = jf_calls jf @ display_calls cid (config c)"
  using sync_collection_in_sync [OF assms] by simp

theorem sync_collection_in_sync_no_reorder_witness:
  "\<not> dry_run (builder_of tmdb_up False)
   \<and> find (\<lambda>e. snd e = name (config (top_collection SORT_NAME))) (jf_collections server_example)
       = Some (''c1'', ''Top'')
   \<and> set (get_collection_items server_example ''c1'') = {''jf-1'', ''jf-2''}
   \<and> set (matched_ids (items (top_collection SORT_NAME))) = {''jf-1'', ''jf-2''}
   \<and> out_result (projr (sync_collection (builder_of tmdb_up False) str_lower id no_arr server_example ()
        (top_collection SORT_NAME) empty_report True)) = (0, 0)
   \<and> jf_calls (out_jf (projr (sync_collection (builder_of tmdb_up False) str_lower id no_arr server_example ()
        (top_collection SORT_NAME) empty_report True)))
       = jf_calls server_example @ display_calls ''c1'' (config (top_collection SORT_NAME))"
proof -
  let ?b = "builder_of tmdb_up False"
  let ?c = "top_collection SORT_NAME"
  let ?r = "sync_collection ?b str_lower id no_arr server_example () ?c empty_report True"
  have nd: "\<not> dry_run ?b"
    by (simp add: builder_of_def)
  have ex: "find (\<lambda>e. snd e = name (config ?c)) (jf_collections server_example) = Some (''c1'', ''Top'')"
    by (simp add: top_collection_def top_config_def server_example_def)
  have so: "sort_items_for_collection str_lower id (items ?c) (collection_order (config ?c)) = Inr (items ?c)"
    by code_simp
  have ms: "set (get_collection_items server_example ''c1'') = {''jf-1'', ''jf-2''}"
    by (simp add: get_collection_items_def server_example_def)
  have ts: "set (matched_ids (items ?c)) = {''jf-1'', ''jf-2''}"
    by (auto simp: matched_ids_def top_collection_def collection_item_def truthy_str_def)
  have eq: "set (get_collection_items server_example ''c1'') = set (matched_ids (items ?c))"
    by (simp only: ms ts)
  have "\<not> isl ?r"
    by code_simp
  then have res: "?r = Inr (projr ?r)"
    by simp
  from sync_collection_in_sync_no_reorder [OF nd ex so eq res] nd ex ms ts
  show ?thesis by blast
qed

text \<open>
  Against C2 as stated: the collection ``Top'' exists with the members \<open>jf-1\<close> and \<open>jf-2\<close>, the
  target set is the same, the policy is \<^verbatim>\<open>SORT_NAME\<close>; the run returns, and the single call it
  makes is the metadata update. Nothing is removed and nothing is added.
\<close>

theorem sync_collection_reorder_counterexample:
  "\<not> isl (sync_collection (builder_of tmdb_up False) str_lower id no_arr server_example ()
           (top_collection SORT_NAME) empty_report False)
   \<and> jf_calls (out_jf (projr (sync_collection (builder_of tmdb_up False) str_lower id no_arr server_example ()
        (top_collection SORT_NAME) empty_report False)))
       = [UpdateCollectionMetadata ''c1'' None None ''SortName'']
   \<and> jf_members (out_jf (projr (sync_collection (builder_of tmdb_up False) str_lower id no_arr server_example ()
        (top_collection SORT_NAME) empty_report False))) ''c1''
       = [''jf-1'', ''jf-2'']"
  by code_simp

subsection \<open>Idempotence of \<^verbatim>\<open>sync_collection\<close>\<close>

text \<open>
  Claim C3. For every collection and every ordering policy other than \<^verbatim>\<open>RANDOM\<close>: when
  \<^verbatim>\<open>sync_collection\<close> has returned and is run again on the server as the first run left it,
  with the same items and configuration, then the second run, when it returns, returns
  \<open>(0, 0)\<close> (its \<^verbatim>\<open>to_add\<close> and \<^verbatim>\<open>to_remove\<close> are empty), leaves the members of every collection
  as they were, and issues no membership call at all. Under a run that is not a dry run, the
  first run has made the collection of the configured name exist with exactly the target set
  as its members; from these members the second run computes an empty \<^verbatim>\<open>to_add\<close>, an empty
  \<^verbatim>\<open>to_remove\<close> and no reorder, and its only calls are those of the display metadata, so no
  clear-and-re-add is triggered.
\<close>

theorem sync_collection_twice:
  assumes "collection_order (config c) \<noteq> RANDOM"
    and "sync_collection b lower shuffle arr jf w c report flag = Inr out1"
    and "sync_collection b lower shuffle' arr' (out_jf out1) w' (out_collection out1) report' flag' = Inr out2"
  shows "out_result out2 = (0, 0)
       \<and> jf_members (out_jf out2) = jf_members (out_jf out1)
       \<and> jf_collections (out_jf out2) = jf_collections (out_jf out1)
       \<and> (\<not> dry_run b \<longrightarrow>
            jf_calls (out_jf out2)
              = jf_calls (out_jf out1)
                @ display_calls (the (collection_jellyfin_id (out_collection out1))) (config c))
       \<and> (\<not> dry_run b \<longrightarrow>
            (\<exists>cid srt.
               collection_jellyfin_id (out_collection out1) = Some cid
               \<and> find (\<lambda>e. snd e = name (config c)) (jf_collections (out_jf out1))
                   = Some (cid, name (config c))
               \<and> sort_items_for_collection lower shuffle (items c) (collection_order (config c))
                   = Inr srt
               \<and> set (jf_members (out_jf out1) cid) = set (matched_ids srt)
               \<and> to_add (reconcile (get_collection_items (out_jf out1) cid) srt
                     (collection_order (config c)) True) = []
               \<and> to_remove (reconcile (get_collection_items (out_jf out1) cid) srt
                     (collection_order (config c)) True) = []
               \<and> \<not> needs_reorder (reconcile (get_collection_items (out_jf out1) cid) srt
                     (collection_order (config c)) True)))"
proof (cases "dry_run b")
  case True
  with assms(3) show ?thesis by (auto simp: sync_collection_def)
next
  case False
  let ?c1 = "out_collection out1"
  from sync_collection_establishes [OF False assms(2)] obtain cid srt where
    f: "find (\<lambda>e. snd e = name (config c)) (jf_collections (out_jf out1)) = Some (cid, name (config c))"
    and so: "sort_items_for_collection lower shuffle (items c) (collection_order (config c)) = Inr srt"
    and eq: "set (get_collection_items (out_jf out1) cid) = set (matched_ids srt)"
    and same: "items ?c1 = items c" "config ?c1 = config c"
    and cid: "collection_jellyfin_id ?c1 = Some cid"
    by blast
  from so assms(1)
  have so': "sort_items_for_collection lower shuffle' (items ?c1) (collection_order (config ?c1)) = Inr srt"
    by (simp add: same sort_items_no_shuffle [of _ lower shuffle' _ shuffle])
  from f same
  have f': "find (\<lambda>e. snd e = name (config ?c1)) (jf_collections (out_jf out1)) = Some (cid, name (config c))"
    by simp
  note ap = apply_plan_in_sync [OF eq, of "collection_order (config c)"]
  from ap(1,2)
  have nr: "\<not> needs_reorder (reconcile (get_collection_items (out_jf out1) cid) srt
              (collection_order (config c)) True)"
    by (simp add: reconcile_fields(5))
  from eq have ms: "set (jf_members (out_jf out1) cid) = set (matched_ids srt)"
    by (simp add: get_collection_items_def)
  have est: "\<exists>cid srt.
               collection_jellyfin_id (out_collection out1) = Some cid
               \<and> find (\<lambda>e. snd e = name (config c)) (jf_collections (out_jf out1))
                   = Some (cid, name (config c))
               \<and> sort_items_for_collection lower shuffle (items c) (collection_order (config c))
                   = Inr srt
               \<and> set (jf_members (out_jf out1) cid) = set (matched_ids srt)
               \<and> to_add (reconcile (get_collection_items (out_jf out1) cid) srt
                     (collection_order (config c)) True) = []
               \<and> to_remove (reconcile (get_collection_items (out_jf out1) cid) srt
                     (collection_order (config c)) True) = []
               \<and> \<not> needs_reorder (reconcile (get_collection_items (out_jf out1) cid) srt
                     (collection_order (config c)) True)"
    using cid f so ms ap(1,2) nr by blast
  from sync_collection_in_sync [OF False f' so' eq assms(3)] same cid est
  show ?thesis by simp
qed

text \<open>
  On a server without the collection, under \<^verbatim>\<open>SORT_NAME\<close>: the first run creates the
  collection and adds both items, the second run returns \<open>(0, 0)\<close>.
\<close>

theorem sync_collection_twice_witness:
  "collection_order (config (top_collection SORT_NAME)) \<noteq> RANDOM
   \<and> \<not> isl (sync_collection (builder_of tmdb_up False) str_lower id no_arr empty_server ()
             (top_collection SORT_NAME) empty_report True)
   \<and> out_result (projr (sync_collection (builder_of tmdb_up False) str_lower id no_arr empty_server ()
        (top_collection SORT_NAME) empty_report True)) = (2, 0)
   \<and> out_result (projr (sync_collection (builder_of tmdb_up False) str_lower id no_arr
        (out_jf (projr (sync_collection (builder_of tmdb_up False) str_lower id no_arr empty_server ()
           (top_collection SORT_NAME) empty_report True))) ()
        (out_collection (projr (sync_collection (builder_of tmdb_up False) str_lower id no_arr empty_server ()
           (top_collection SORT_NAME) empty_report True)))
        empty_report True)) = (0, 0)
   \<and> jf_members (out_jf (projr (sync_collection (builder_of tmdb_up False) str_lower id no_arr
        empty_server () (top_collection SORT_NAME) empty_report True))) ''c''
       = [''jf-2'', ''jf-1'']"
proof -
  let ?b = "builder_of tmdb_up False"
  let ?c = "top_collection SORT_NAME"
  let ?r1 = "sync_collection ?b str_lower id no_arr empty_server () ?c empty_report True"
  let ?r2 = "sync_collection ?b str_lower id no_arr (out_jf (projr ?r1)) () (out_collection (projr ?r1))
               empty_report True"
  have nr: "collection_order (config ?c) \<noteq> RANDOM"
    by (simp add: top_collection_def top_config_def)
  have i1: "\<not> isl ?r1"
    by code_simp
  then have e1: "?r1 = Inr (projr ?r1)"
    by simp
  have n1: "out_result (projr ?r1) = (2, 0)"
    by code_simp
  have "\<not> isl ?r2"
    by code_simp
  then have e2: "?r2 = Inr (projr ?r2)"
    by simp
  have m1: "jf_members (out_jf (projr ?r1)) ''c'' = [''jf-2'', ''jf-1'']"
    by code_simp
  from sync_collection_twice [OF nr e1 e2] have "out_result (projr ?r2) = (0, 0)"
    by blast
  with nr i1 n1 m1 show ?thesis by blast
qed

subsection \<open>A provider that fails\<close>




subsection \<open>The match predicate\<close>

text \<open>
  Claim C5. \<^verbatim>\<open>is_match(a, b)\<close> is true if and only if \<open>a\<close> and \<open>b\<close> carry the same primary
  id, or the same secondary id, or the same tertiary id, or their normalized titles are equal
  and the year condition holds: an absent year on either side is a wildcard, two present years
  differ by at most one.
\<close>

theorem is_match_iff:
  "is_match a b \<longleftrightarrow>
     (\<exists>i. tmdb_id a = Some i \<and> tmdb_id b = Some i)
   \<or> (\<exists>i. imdb_id a = Some i \<and> imdb_id b = Some i)
   \<or> (\<exists>i. tvdb_id a = Some i \<and> tvdb_id b = Some i)
   \<or> (normalize_title (title a) = normalize_title (title b)
       \<and> (year a = None \<or> year b = None
           \<or> (\<exists>u v. year a = Some u \<and> year b = Some v \<and> \<bar>u - v\<bar> \<le> 1)))"
  by (auto simp: is_match_def same_id_def years_compatible_def split: option.splits)

text \<open>
  The cases of \<^verbatim>\<open>TestIsMatch\<close>: a shared primary id with different titles matches, equal
  titles one year apart match, equal titles three years apart do not.
\<close>

theorem is_match_iff_witness:
  "is_match (movie_item ''Movie'' None (Some 123)) (library_movie ''jf-1'' ''Different Title'' None (Some 123))
   \<and> is_match (movie_item ''Movie'' (Some 2023) None) (library_movie ''jf-1'' ''Movie'' (Some 2024) None)
   \<and> \<not> is_match (movie_item ''Movie'' (Some 2020) None) (library_movie ''jf-1'' ''Movie'' (Some 2023) None)"
proof -
  have n: "normalize_title ''Movie'' = normalize_title ''Movie''" by simp
  show ?thesis
    unfolding is_match_iff [of "movie_item ''Movie'' None (Some 123)"]
      is_match_iff [of "movie_item ''Movie'' (Some 2023) None"]
      is_match_iff [of "movie_item ''Movie'' (Some 2020) None"]
    by (simp add: movie_item_def library_movie_def)
qed

subsection \<open>Sorting for the collection\<close>




subsection \<open>Idempotence of the normalizer\<close>

text \<open>
  Claim C7, as amended. \<^verbatim>\<open>normalize(normalize(x)) == normalize(x)\<close> holds for every \<open>x\<close>
  whose normalized title does not itself begin with an article followed by a space, that is,
  which the article-stripping step leaves unchanged; and \<^verbatim>\<open>normalize("THE Movie")\<close> and
  \<^verbatim>\<open>normalize("the movie")\<close> are \<^verbatim>\<open>"movie"\<close>, \<^verbatim>\<open>normalize("Movie: Part 2")\<close> is
  \<^verbatim>\<open>"movie part 2"\<close>.
\<close>

theorem normalize_title_idempotent:
  "(strip_article (normalize_title x) = normalize_title x
      \<longrightarrow> normalize_title (normalize_title x) = normalize_title x)
   \<and> normalize_title ''THE Movie'' = ''movie''
   \<and> normalize_title ''the movie'' = ''movie''
   \<and> normalize_title ''Movie: Part 2'' = ''movie part 2''"
proof (intro conjI impI)
  assume "strip_article (normalize_title x) = normalize_title x"
  then show "normalize_title (normalize_title x) = normalize_title x"
    by (rule normalize_title_fixed_point)
next
  show "normalize_title ''THE Movie'' = ''movie''" by code_simp
  show "normalize_title ''the movie'' = ''movie''" by code_simp
  show "normalize_title ''Movie: Part 2'' = ''movie part 2''" by code_simp
qed

theorem normalize_title_idempotent_witness:
  "strip_article (normalize_title ''Movie - The Sequel'') = normalize_title ''Movie - The Sequel''
   \<and> normalize_title (normalize_title ''Movie - The Sequel'') = normalize_title ''Movie - The Sequel''"
proof -
  have h: "strip_article (normalize_title ''Movie - The Sequel'') = normalize_title ''Movie - The Sequel''"
    by code_simp
  with normalize_title_idempotent [of "''Movie - The Sequel''"] show ?thesis by blast
qed

text \<open>
  Against C7 as stated: ``The The Movie'' normalizes to ``the movie'', which normalizes to
  ``movie''.
\<close>

theorem normalize_title_idempotent_counterexample:
  "normalize_title ''The The Movie'' = ''the movie''
   \<and> normalize_title (normalize_title ''The The Movie'') = ''movie''
   \<and> normalize_title (normalize_title ''The The Movie'') \<noteq> normalize_title ''The The Movie''"
  by code_simp

subsection \<open>Filters and absent attributes\<close>

text \<open>
  Claim C8. \<^verbatim>\<open>_apply_filters\<close> never excludes an item because of an attribute that the item
  does not carry: for an item without year the year filters make no difference to whether it
  passes, and likewise the rating filters for an item without rating, the vote-count filter for
  an item without vote count, the country exclusions for an item without country, the language
  exclusion for an item without language, and the genre filters for an item without genres. An
  item that carries none of these attributes passes every filter configuration, and is in the
  result when no limit is set.
\<close>

theorem apply_filters_absence:
  "(year x = None \<longrightarrow>
      item_passes f x = item_passes (f\<lparr>year_gte := None, year_lte := None\<rparr>) x)
   \<and> (vote_average x = None \<longrightarrow>
      item_passes f x = item_passes (f\<lparr>vote_average_gte := None, critic_rating_gte := None\<rparr>) x)
   \<and> (vote_count x = None \<longrightarrow>
      item_passes f x = item_passes (f\<lparr>tmdb_vote_count_gte := None\<rparr>) x)
   \<and> (original_country x = None \<longrightarrow>
      item_passes f x = item_passes (f\<lparr>country_not := [], origin_country_not := []\<rparr>) x)
   \<and> (original_language x = None \<longrightarrow>
      item_passes f x = item_passes (f\<lparr>original_language_not := []\<rparr>) x)
   \<and> (genres x = [] \<longrightarrow>
      item_passes f x = item_passes (f\<lparr>without_genres := [], with_genres := []\<rparr>) x)
   \<and> (year x = None \<and> vote_average x = None \<and> vote_count x = None \<and> original_country x = None
        \<and> original_language x = None \<and> genres x = []
      \<longrightarrow> item_passes f x
          \<and> (x \<in> set xs \<and> filters cfg = f \<and> limit cfg = None \<longrightarrow> x \<in> set (apply_filters xs cfg)))"
proof (intro conjI impI)
  assume "year x = None"
  then show "item_passes f x = item_passes (f\<lparr>year_gte := None, year_lte := None\<rparr>) x"
    by (rule item_passes_year)
next
  assume "vote_average x = None"
  then show "item_passes f x = item_passes (f\<lparr>vote_average_gte := None, critic_rating_gte := None\<rparr>) x"
    by (rule item_passes_vote_average)
next
  assume "vote_count x = None"
  then show "item_passes f x = item_passes (f\<lparr>tmdb_vote_count_gte := None\<rparr>) x"
    by (rule item_passes_vote_count)
next
  assume "original_country x = None"
  then show "item_passes f x = item_passes (f\<lparr>country_not := [], origin_country_not := []\<rparr>) x"
    by (rule item_passes_country)
next
  assume "original_language x = None"
  then show "item_passes f x = item_passes (f\<lparr>original_language_not := []\<rparr>) x"
    by (rule item_passes_language)
next
  assume "genres x = []"
  then show "item_passes f x = item_passes (f\<lparr>without_genres := [], with_genres := []\<rparr>) x"
    by (rule item_passes_genres)
next
  assume a: "year x = None \<and> vote_average x = None \<and> vote_count x = None \<and> original_country x = None
        \<and> original_language x = None \<and> genres x = []"
  then show p: "item_passes f x"
    by (simp add: item_passes_bare)
  assume "x \<in> set xs \<and> filters cfg = f \<and> limit cfg = None"
  with p show "x \<in> set (apply_filters xs cfg)"
    by (simp add: apply_filters_def)
qed

text \<open>An item with no vote count passes a filter on the vote count.\<close>

theorem apply_filters_absence_witness:
  "vote_count (movie_item ''A'' (Some 2020) (Some 1)) = None
   \<and> item_passes (no_filter\<lparr>tmdb_vote_count_gte := Some 100\<rparr>) (movie_item ''A'' (Some 2020) (Some 1))"
proof -
  let ?x = "movie_item ''A'' (Some 2020) (Some 1)"
  let ?f = "no_filter\<lparr>tmdb_vote_count_gte := Some 100\<rparr>"
  have v: "vote_count ?x = None"
    by (simp add: movie_item_def)
  have p: "item_passes (?f\<lparr>tmdb_vote_count_gte := None\<rparr>) ?x"
    by code_simp
  from apply_filters_absence [of ?x ?f] v p show ?thesis by blast
qed

subsection \<open>Symmetry of the match predicate\<close>

text \<open>
  Claim C9. The match predicate is symmetric: \<^verbatim>\<open>is_match(a, b) == is_match(b, a)\<close> for
  every pair of items.
\<close>

theorem is_match_symmetric:
  "is_match a b = is_match b a"
  by (auto simp: is_match_def same_id_def years_compatible_def split: option.splits)

theorem is_match_symmetric_witness:
  "is_match (movie_item ''The Movie'' (Some 2023) None) (library_movie ''jf-1'' ''The Movie'' (Some 2023) None)
   \<and> is_match (library_movie ''jf-1'' ''The Movie'' (Some 2023) None) (movie_item ''The Movie'' (Some 2023) None)"
proof -
  have "is_match (movie_item ''The Movie'' (Some 2023) None)
          (library_movie ''jf-1'' ''The Movie'' (Some 2023) None)"
    by (simp add: is_match_def same_id_def years_compatible_def movie_item_def library_movie_def)
  with is_match_symmetric [of "movie_item ''The Movie'' (Some 2023) None"
      "library_movie ''jf-1'' ''The Movie'' (Some 2023) None"]
  show ?thesis by blast
qed

subsection \<open>Dry run\<close>

text \<open>
  Claim C10. When the builder is constructed with \<^verbatim>\<open>dry_run=True\<close>, \<^verbatim>\<open>sync_collection\<close>
  returns \<open>(0, 0)\<close> for every collection and changes nothing: the server (its collections, their
  members, and the record of calls, so no collection is created, no member is added or removed,
  no metadata is updated and no poster is uploaded), the acquisition services, the collection
  and the report are as they were.
\<close>

theorem sync_collection_dry_run:
  assumes "dry_run b"
  shows "sync_collection b lower shuffle arr jf w c report flag
           = Inr \<lparr>out_jf = jf, out_arr = w, out_collection = c, out_report = report,
                 out_result = (0, 0)\<rparr>"
  using assms by (simp add: sync_collection_def)

theorem sync_collection_dry_run_witness:
  "dry_run (builder_of tmdb_up True)
   \<and> sync_collection (builder_of tmdb_up True) str_lower id no_arr empty_server () (top_collection SORT_NAME)
         empty_report True
       = Inr \<lparr>out_jf = empty_server, out_arr = (), out_collection = top_collection SORT_NAME,
             out_report = empty_report, out_result = (0, 0)\<rparr>"
proof -
  have d: "dry_run (builder_of tmdb_up True)"
    by (simp add: builder_of_def)
  from d sync_collection_dry_run [OF d, of str_lower id no_arr empty_server "()" "top_collection SORT_NAME"
      empty_report True]
  show ?thesis by (rule conjI)
qed

end
